theory Spec2Isabelle
  imports Main
begin

section \<open>The operating system and library calls the builder makes\<close>

text \<open>
  The builder of \<^verbatim>\<open>build/nodejs.go\<close> talks to its surroundings through a handful of
  calls: \<^verbatim>\<open>os.Getenv\<close>, \<^verbatim>\<open>exec.Command(...).Output()\<close>, \<^verbatim>\<open>os.Stat\<close>,
  \<^verbatim>\<open>doublestar.Glob\<close>, \<^verbatim>\<open>ioutil.ReadFile\<close>, \<^verbatim>\<open>json.Unmarshal\<close> and
  \<^verbatim>\<open>filepath.Join\<close>. None of them is code of the repository, so each is a field of the
  record \<open>env\<close>, and every theorem below quantifies over all environments. A Go pair
  \<^verbatim>\<open>(value, err)\<close> is a HOL pair whose second component is \<open>None\<close> for \<^verbatim>\<open>nil\<close>.
\<close>

type_synonym oserror = string

datatype error = ErrorsNew string | External oserror

datatype Cmd = Command (cmd_name: string) (cmd_args: "string list") (cmd_dir: string)

record NodeModule =
  Name :: string
  Version :: string

definition NodeModule_zero :: NodeModule where
  "NodeModule_zero = \<lparr>Name = [], Version = []\<rparr>"

record NodeJSBuilder =
  NodeCmd :: string
  NodeVersion :: string
  NpmCmd :: string
  NpmVersion :: string
  YarnCmd :: string
  YarnVersion :: string

definition NodeJSBuilder_zero :: NodeJSBuilder where
  "NodeJSBuilder_zero =
     \<lparr>NodeCmd = [], NodeVersion = [], NpmCmd = [], NpmVersion = [],
      YarnCmd = [], YarnVersion = []\<rparr>"

text \<open>
  Modelled from the spec: \<^verbatim>\<open>module.Module\<close> is declared in another package of the
  repository; the builder reads only its root directory \<^verbatim>\<open>Dir\<close>.
\<close>

record Module =
  Dir :: string

definition Module_zero :: Module where
  "Module_zero = \<lparr>Dir = []\<rparr>"

record env =
  Getenv :: "string \<Rightarrow> string"
  Output :: "Cmd \<Rightarrow> string \<times> oserror option"
  Stat :: "string \<Rightarrow> oserror option"
  Glob :: "string \<Rightarrow> string list \<times> oserror option"
  ReadFile :: "string \<Rightarrow> string \<times> oserror option"
  Unmarshal :: "string \<Rightarrow> NodeModule \<Rightarrow> NodeModule \<times> oserror option"
  Join :: "string list \<Rightarrow> string"

text \<open>A call either returns or panics (an index or a slice bound out of range).\<close>

datatype 'a outcome = Panic | Return 'a

section \<open>\<^verbatim>\<open>strings.TrimSpace\<close>\<close>

text \<open>
  \<^verbatim>\<open>strings.TrimSpace\<close> removes the leading and the trailing white space of a string,
  as \<^verbatim>\<open>unicode.IsSpace\<close> defines it. A Go string is a byte sequence, so the white-space
  code points appear here in their UTF-8 encoding.
\<close>

definition spaceRunes :: "string list" where
  "spaceRunes =
     [[CHR 0x09], [CHR 0x0A], [CHR 0x0B], [CHR 0x0C], [CHR 0x0D], [CHR 0x20],
      [CHR 0xC2, CHR 0x85], [CHR 0xC2, CHR 0xA0],
      [CHR 0xE1, CHR 0x9A, CHR 0x80],
      [CHR 0xE2, CHR 0x80, CHR 0x80], [CHR 0xE2, CHR 0x80, CHR 0x81],
      [CHR 0xE2, CHR 0x80, CHR 0x82], [CHR 0xE2, CHR 0x80, CHR 0x83],
      [CHR 0xE2, CHR 0x80, CHR 0x84], [CHR 0xE2, CHR 0x80, CHR 0x85],
      [CHR 0xE2, CHR 0x80, CHR 0x86], [CHR 0xE2, CHR 0x80, CHR 0x87],
      [CHR 0xE2, CHR 0x80, CHR 0x88], [CHR 0xE2, CHR 0x80, CHR 0x89],
      [CHR 0xE2, CHR 0x80, CHR 0x8A],
      [CHR 0xE2, CHR 0x80, CHR 0xA8], [CHR 0xE2, CHR 0x80, CHR 0xA9],
      [CHR 0xE2, CHR 0x80, CHR 0xAF],
      [CHR 0xE2, CHR 0x81, CHR 0x9F],
      [CHR 0xE3, CHR 0x80, CHR 0x80]]"

definition leadingSpace :: "string \<Rightarrow> string option" where
  "leadingSpace s = find (\<lambda>p. take (length p) s = p) spaceRunes"

definition trailingSpace :: "string \<Rightarrow> string option" where
  "trailingSpace s = find (\<lambda>p. drop (length s - length p) s = p) spaceRunes"

function TrimLeftSpace :: "string \<Rightarrow> string" where
  "TrimLeftSpace s =
     (case leadingSpace s of
        None \<Rightarrow> s
      | Some p \<Rightarrow> TrimLeftSpace (drop (length p) s))"
  by pat_completeness auto
termination
proof (relation "measure length")
  fix s p
  assume "leadingSpace s = Some p"
  then obtain i where "i < length spaceRunes" and "p = spaceRunes ! i"
    and "take (length p) s = p"
    unfolding leadingSpace_def find_Some_iff by blast
  then have "p \<in> set spaceRunes" by simp
  then have "p \<noteq> []" by (auto simp: spaceRunes_def)
  with \<open>take (length p) s = p\<close> have "s \<noteq> []" by auto
  with \<open>p \<noteq> []\<close> show "(drop (length p) s, s) \<in> measure length" by simp
qed simp

function TrimRightSpace :: "string \<Rightarrow> string" where
  "TrimRightSpace s =
     (case trailingSpace s of
        None \<Rightarrow> s
      | Some p \<Rightarrow> TrimRightSpace (take (length s - length p) s))"
  by pat_completeness auto
termination
proof (relation "measure length")
  fix s p
  assume "trailingSpace s = Some p"
  then obtain i where "i < length spaceRunes" and "p = spaceRunes ! i"
    and "drop (length s - length p) s = p"
    unfolding trailingSpace_def find_Some_iff by blast
  then have "p \<in> set spaceRunes" by simp
  then have "p \<noteq> []" by (auto simp: spaceRunes_def)
  with \<open>drop (length s - length p) s = p\<close> have "s \<noteq> []" by auto
  with \<open>p \<noteq> []\<close> show "(take (length s - length p) s, s) \<in> measure length" by simp
qed simp

declare TrimLeftSpace.simps [simp del] TrimRightSpace.simps [simp del]

definition TrimSpace :: "string \<Rightarrow> string" where
  "TrimSpace s = TrimRightSpace (TrimLeftSpace s)"

section \<open>Initialize\<close>

text \<open>
  The candidate loop of \<^verbatim>\<open>Initialize\<close> walks the array \<^verbatim>\<open>nodeCmds\<close> from index 0; the
  recursion below walks the remaining candidates. Running out of candidates is the
  branch \<^verbatim>\<open>i >= len(nodeCmds)\<close>. The list of commands is the log of the subprocesses
  spawned so far, oldest first.

  The test \<^verbatim>\<open>err == nil && nodeVersionOutput[0] == 'v'\<close> indexes the output without
  looking at its length: on an empty output the Go program panics. The slice
  \<^verbatim>\<open>[1:]\<close> of the trimmed output panics likewise when the trimmed string is empty.
\<close>

datatype nodeSearch = NodePanic | NodeMissing "Cmd list" | NodeFound string string "Cmd list"

fun findNode :: "env \<Rightarrow> string list \<Rightarrow> Cmd list \<Rightarrow> nodeSearch" where
  "findNode e [] log = NodeMissing log"
| "findNode e (c # cs) log =
     (if c = [] then findNode e cs log
      else
        let probe = Command c [''-v''] [];
            (nodeVersionOutput, err) = Output e probe
        in if err = None then
             (case nodeVersionOutput of
                [] \<Rightarrow> NodePanic
              | b # _ \<Rightarrow>
                  if b = CHR ''v'' then
                    (case TrimSpace nodeVersionOutput of
                       [] \<Rightarrow> NodePanic
                     | _ # version \<Rightarrow> NodeFound c version (log @ [probe]))
                  else findNode e cs (log @ [probe]))
           else findNode e cs (log @ [probe]))"

definition nodeCmds :: "env \<Rightarrow> string list" where
  "nodeCmds e = [Getenv e ''NODE_BINARY'', ''node'', ''nodejs'']"

definition ErrNoNode :: error where
  "ErrNoNode = ErrorsNew ''could not find Nodejs binary (try setting $NODE_BINARY)''"

definition ErrNoPackageManager :: error where
  "ErrNoPackageManager =
     ErrorsNew ''could not find NPM binary or Yarn binary (try setting $NPM_BINARY or $YARN_BINARY)''"

text \<open>
  \<^verbatim>\<open>Initialize\<close> writes through its receiver, so the builder it leaves behind is part
  of the result also when it returns an error. \<open>setNpm\<close> is lines 77 to 86 of the
  source and \<open>setYarn\<close> lines 88 to 96: the command is the environment override or
  the default name, and the version is stored only when the probe succeeds with at least
  five bytes of output.
\<close>

definition setNpm :: "env \<Rightarrow> NodeJSBuilder \<Rightarrow> NodeJSBuilder" where
  "setNpm e b =
     (let cmd = Getenv e ''NPM_BINARY'';
          b1 = b\<lparr>NpmCmd := (if cmd = [] then ''npm'' else cmd)\<rparr>;
          (npmVersionOutput, err) = Output e (Command (NpmCmd b1) [''-v''] [])
      in if err = None \<and> length npmVersionOutput \<ge> 5
         then b1\<lparr>NpmVersion := TrimSpace npmVersionOutput\<rparr> else b1)"

definition setYarn :: "env \<Rightarrow> NodeJSBuilder \<Rightarrow> NodeJSBuilder" where
  "setYarn e b =
     (let cmd = Getenv e ''YARN_BINARY'';
          b1 = b\<lparr>YarnCmd := (if cmd = [] then ''yarn'' else cmd)\<rparr>;
          (yarnVersionOutput, err) = Output e (Command (YarnCmd b1) [''-v''] [])
      in if err = None \<and> length yarnVersionOutput \<ge> 5
         then b1\<lparr>YarnVersion := TrimSpace yarnVersionOutput\<rparr> else b1)"

definition Initialize ::
  "env \<Rightarrow> NodeJSBuilder \<Rightarrow> (NodeJSBuilder \<times> Cmd list \<times> error option) outcome" where
  "Initialize e builder =
     (case findNode e (nodeCmds e) [] of
        NodePanic \<Rightarrow> Panic
      | NodeMissing log \<Rightarrow> Return (builder, log, Some ErrNoNode)
      | NodeFound cmd version log \<Rightarrow>
          let b1 = builder\<lparr>NodeVersion := version, NodeCmd := cmd\<rparr>;
              b2 = setNpm e b1;
              b3 = setYarn e b2;
              log3 = log @ [Command (NpmCmd b3) [''-v''] [], Command (YarnCmd b3) [''-v''] []]
          in if (NpmCmd b3 = [] \<or> NpmVersion b3 = []) \<and> (YarnCmd b3 = [] \<or> YarnVersion b3 = [])
             then Return (b3, log3, Some ErrNoPackageManager)
             else Return (b3, log3, None))"

section \<open>Build\<close>

text \<open>
  \<^verbatim>\<open>Build\<close> returns its error together with the log of the subprocesses it spawned,
  oldest first. An error of a subprocess is handed on as it is.
\<close>

definition rmCmd :: "Module \<Rightarrow> Cmd" where
  "rmCmd m = Command ''rm'' [''-rf'', ''node_modules''] (Dir m)"

definition yarnInstall :: "NodeJSBuilder \<Rightarrow> Module \<Rightarrow> Cmd" where
  "yarnInstall builder m =
     Command (YarnCmd builder) [''install'', ''--production'', ''--frozen-lockfile''] (Dir m)"

definition npmInstall :: "NodeJSBuilder \<Rightarrow> Module \<Rightarrow> Cmd" where
  "npmInstall builder m = Command (NpmCmd builder) [''install'', ''--production''] (Dir m)"

definition ErrYarnMissing :: error where
  "ErrYarnMissing =
     ErrorsNew ''Yarn lockfile found but could not find Yarn binary (try setting $YARN_BINARY)''"

definition run :: "env \<Rightarrow> Cmd \<Rightarrow> Cmd list \<times> error option" where
  "run e cmd = ([cmd], map_option External (snd (Output e cmd)))"

text \<open>The part of \<^verbatim>\<open>Build\<close> after the forced clean-up (lines 119 to 137).\<close>

definition installDeps :: "env \<Rightarrow> NodeJSBuilder \<Rightarrow> Module \<Rightarrow> Cmd list \<times> error option" where
  "installDeps e builder m =
     (if Stat e (Join e [Dir m, ''yarn.lock'']) = None then
        if YarnCmd builder = [] then ([], Some ErrYarnMissing)
        else run e (yarnInstall builder m)
      else run e (npmInstall builder m))"

definition Build :: "env \<Rightarrow> NodeJSBuilder \<Rightarrow> Module \<Rightarrow> bool \<Rightarrow> Cmd list \<times> error option" where
  "Build e builder m force =
     (if force then
        (case snd (Output e (rmCmd m)) of
           Some err \<Rightarrow> ([rmCmd m], Some (External err))
         | None \<Rightarrow> (rmCmd m # fst (installDeps e builder m), snd (installDeps e builder m)))
      else installDeps e builder m)"

definition isInstall :: "Cmd \<Rightarrow> bool" where
  "isInstall cmd = (take 1 (cmd_args cmd) = [''install''])"

section \<open>Analyze\<close>

text \<open>
  \<^verbatim>\<open>Analyze\<close> starts one goroutine per globbed path. A goroutine reads only its path and
  writes only its own slot of \<^verbatim>\<open>dependencies\<close>, and it ends with \<^verbatim>\<open>wg.Done()\<close>, so
  a run of the goroutines is the sequence of their indices in the order in which they
  finish. \<^verbatim>\<open>wg.Wait()\<close> returns when the counter set by \<^verbatim>\<open>wg.Add\<close> is back at
  zero; \<open>Analyze\<close> is \<open>None\<close> for a sequence after which the main goroutine is still
  waiting. A well-formed sequence names goroutines that were started, each at most once.
\<close>

definition manifestPattern :: "env \<Rightarrow> Module \<Rightarrow> string" where
  "manifestPattern e m = Join e [Dir m, ''**'', ''node_modules'', ''*'', ''package.json'']"

text \<open>What the body of a goroutine leaves in its slot; the error of
  \<^verbatim>\<open>json.Unmarshal\<close> is dropped.\<close>

definition readManifest :: "env \<Rightarrow> string \<Rightarrow> NodeModule \<Rightarrow> NodeModule" where
  "readManifest e modulePath slot =
     (let (dependencyManifest, err) = ReadFile e modulePath
      in if err \<noteq> None then slot else fst (Unmarshal e dependencyManifest slot))"

record aggregation =
  dependencies :: "NodeModule list"
  wg :: int

definition goroutine :: "env \<Rightarrow> string list \<Rightarrow> nat \<Rightarrow> aggregation \<Rightarrow> aggregation" where
  "goroutine e nodeModules index st =
     \<lparr>dependencies =
        (dependencies st)[index := readManifest e (nodeModules ! index) (dependencies st ! index)],
      wg = wg st - 1\<rparr>"

definition wellFormed :: "nat \<Rightarrow> nat list \<Rightarrow> bool" where
  "wellFormed n sched = (distinct sched \<and> list_all (\<lambda>i. i < n) sched)"

text \<open>The last loop of \<^verbatim>\<open>Analyze\<close> appends every slot to \<^verbatim>\<open>deps\<close>.\<close>

definition collect :: "NodeModule list \<Rightarrow> NodeModule list" where
  "collect ds = foldl (\<lambda>deps d. deps @ [d]) [] ds"

definition Analyze ::
  "env \<Rightarrow> NodeJSBuilder \<Rightarrow> Module \<Rightarrow> bool \<Rightarrow> nat list \<Rightarrow> (NodeModule list \<times> error option) option" where
  "Analyze e builder m flag sched =
     (let (nodeModules, err) = Glob e (manifestPattern e m)
      in case err of
           Some globErr \<Rightarrow> Some ([], Some (External globErr))
         | None \<Rightarrow>
             let st0 = \<lparr>dependencies = replicate (length nodeModules) NodeModule_zero,
                        wg = int (length nodeModules)\<rparr>;
                 st = fold (goroutine e nodeModules) sched st0
             in if wg st = 0 then Some (collect (dependencies st), None) else None)"

section \<open>IsBuilt, IsModule, InferModule\<close>

definition IsBuilt :: "env \<Rightarrow> NodeJSBuilder \<Rightarrow> Module \<Rightarrow> bool \<Rightarrow> bool \<times> error option" where
  "IsBuilt e builder m flag =
     (let nodeModulesPath = Join e [Dir m, ''node_modules'']
      in if Stat e nodeModulesPath = None then (True, None) else (False, None))"

definition IsModule :: "NodeJSBuilder \<Rightarrow> string \<Rightarrow> bool \<times> error option" where
  "IsModule builder target =
     (False, Some (ErrorsNew ''IsModule is not implemented for NodeJSBuilder''))"

definition InferModule :: "NodeJSBuilder \<Rightarrow> string \<Rightarrow> Module \<times> error option" where
  "InferModule builder target =
     (Module_zero, Some (ErrorsNew ''InferModule is not implemented for NodeJSBuilder''))"

section \<open>Notions used in the statements\<close>

text \<open>
  A candidate is accepted when it is not the empty string, its version command succeeds
  and the output starts with the byte \<open>v\<close>; it crashes the loop when the command
  succeeds with no output at all. The loop stops at the first candidate that does
  either.
\<close>

definition probeCmd :: "string \<Rightarrow> Cmd" where
  "probeCmd c = Command c [''-v''] []"

definition accepts :: "env \<Rightarrow> string \<Rightarrow> bool" where
  "accepts e c =
     (c \<noteq> [] \<and> snd (Output e (probeCmd c)) = None \<and> take 1 (fst (Output e (probeCmd c))) = ''v'')"

definition crashes :: "env \<Rightarrow> string \<Rightarrow> bool" where
  "crashes e c = (c \<noteq> [] \<and> Output e (probeCmd c) = ([], None))"

definition stops :: "env \<Rightarrow> string \<Rightarrow> bool" where
  "stops e c = (accepts e c \<or> crashes e c)"

text \<open>The candidates probed before the loop stops or runs out: the non-empty ones.\<close>

definition probed :: "env \<Rightarrow> string list \<Rightarrow> Cmd list" where
  "probed e cs = map probeCmd (filter (\<lambda>c. c \<noteq> []) (takeWhile (\<lambda>c. \<not> stops e c) cs))"

text \<open>
  A package manager resolves when the version command of its binary (the environment
  override, or the default name) succeeds with at least five bytes of output that are
  not all white space: then, and only then, \<^verbatim>\<open>Initialize\<close> stores a non-empty version.
\<close>

definition resolves :: "env \<Rightarrow> string \<Rightarrow> string \<Rightarrow> bool" where
  "resolves e var dflt =
     (let cmd = (if Getenv e var = [] then dflt else Getenv e var);
          (out, err) = Output e (probeCmd cmd)
      in err = None \<and> length out \<ge> 5 \<and> TrimSpace out \<noteq> [])"

definition npmResolves :: "env \<Rightarrow> bool" where
  "npmResolves e = resolves e ''NPM_BINARY'' ''npm''"

definition yarnResolves :: "env \<Rightarrow> bool" where
  "yarnResolves e = resolves e ''YARN_BINARY'' ''yarn''"

text \<open>The slot of a path after its goroutine has run on the zero-valued slot.\<close>

definition slotResult :: "env \<Rightarrow> string \<Rightarrow> NodeModule" where
  "slotResult e p = readManifest e p NodeModule_zero"

text \<open>A manifest that is read and parsed without an error.\<close>

definition parsedOK :: "env \<Rightarrow> string \<Rightarrow> bool" where
  "parsedOK e p =
     (snd (ReadFile e p) = None \<and> snd (Unmarshal e (fst (ReadFile e p)) NodeModule_zero) = None)"

section \<open>Example environments\<close>

text \<open>
  A plain stand-in for \<^verbatim>\<open>filepath.Join\<close> on the paths of the examples, and a stand-in
  for \<^verbatim>\<open>json.Unmarshal\<close> that knows one manifest and rejects every other input without
  touching the destination.
\<close>

fun slashJoin :: "string list \<Rightarrow> string" where
  "slashJoin [] = []"
| "slashJoin [x] = x"
| "slashJoin (x # y # ys) = x @ ''/'' @ slashJoin (y # ys)"

definition lodashManifest :: string where
  "lodashManifest = ''{\"name\":\"lodash\",\"version\":\"4.17.0\"}''"

definition lodash :: NodeModule where
  "lodash = \<lparr>Name = ''lodash'', Version = ''4.17.0''\<rparr>"

definition toyUnmarshal :: "string \<Rightarrow> NodeModule \<Rightarrow> NodeModule \<times> oserror option" where
  "toyUnmarshal d slot =
     (if d = lodashManifest then (lodash, None) else (slot, Some ''invalid character''))"

definition newline :: string where
  "newline = [CHR 0x0A]"

text \<open>A machine with nothing installed and an empty file system.\<close>

definition bareEnv :: env where
  "bareEnv =
     \<lparr>Getenv = (\<lambda>_. []),
      Output = (\<lambda>_. ([], Some ''executable file not found in $PATH'')),
      Stat = (\<lambda>_. Some ''no such file or directory''),
      Glob = (\<lambda>_. ([], None)),
      ReadFile = (\<lambda>_. ([], Some ''no such file or directory'')),
      Unmarshal = toyUnmarshal,
      Join = slashJoin\<rparr>"

text \<open>The project of the examples.\<close>

definition exampleModule :: Module where
  "exampleModule = \<lparr>Dir = ''/work/app''\<rparr>"

text \<open>Node and npm are installed, Yarn is not.\<close>

definition nodeNpmEnv :: env where
  "nodeNpmEnv =
     bareEnv\<lparr>Output := (\<lambda>cmd.
        if cmd = Command ''node'' [''-v''] [] then (''v8.9.4'' @ newline, None)
        else if cmd = Command ''npm'' [''-v''] [] then (''5.6.0'' @ newline, None)
        else Output bareEnv cmd)\<rparr>"

text \<open>The same machine, with a \<^verbatim>\<open>yarn.lock\<close> in the project.\<close>

definition lockfileEnv :: env where
  "lockfileEnv =
     nodeNpmEnv\<lparr>Stat := (\<lambda>p. if p = ''/work/app/yarn.lock'' then None else Stat nodeNpmEnv p)\<rparr>"

text \<open>
  \<^verbatim>\<open>NODE_BINARY\<close> names a program that exits with status 0 and prints nothing, as
  \<^verbatim>\<open>/bin/true\<close> does; neither \<^verbatim>\<open>node\<close> nor \<^verbatim>\<open>nodejs\<close> is installed, npm is.
\<close>

definition silentEnv :: env where
  "silentEnv =
     bareEnv\<lparr>Getenv := (\<lambda>v. if v = ''NODE_BINARY'' then ''/bin/true'' else []),
              Output := (\<lambda>cmd.
        if cmd = Command ''/bin/true'' [''-v''] [] then ([], None)
        else if cmd = Command ''npm'' [''-v''] [] then (''5.6.0'' @ newline, None)
        else Output bareEnv cmd)\<rparr>"

text \<open>The same override on the machine that has Node and npm.\<close>

definition silentOverrideEnv :: env where
  "silentOverrideEnv =
     nodeNpmEnv\<lparr>Getenv := (\<lambda>v. if v = ''NODE_BINARY'' then ''/bin/true'' else []),
                Output := (\<lambda>cmd.
        if cmd = Command ''/bin/true'' [''-v''] [] then ([], None) else Output nodeNpmEnv cmd)\<rparr>"

text \<open>
  Three installed packages: one with a valid manifest, one whose manifest is not JSON,
  one whose manifest cannot be read.
\<close>

definition manifestPaths :: "string list" where
  "manifestPaths =
     [''/work/app/node_modules/lodash/package.json'',
      ''/work/app/node_modules/left-pad/package.json'',
      ''/work/app/node_modules/gone/package.json'']"

definition manifestsEnv :: env where
  "manifestsEnv =
     bareEnv\<lparr>Glob := (\<lambda>pat. if pat = ''/work/app/**/node_modules/*/package.json''
                          then (manifestPaths, None) else ([], None)),
              ReadFile := (\<lambda>p.
        if p = ''/work/app/node_modules/lodash/package.json'' then (lodashManifest, None)
        else if p = ''/work/app/node_modules/left-pad/package.json'' then (''{ name: left-pad'', None)
        else ReadFile bareEnv p)\<rparr>"

text \<open>\<^verbatim>\<open>node -v\<close> exits with status 0 and prints nothing.\<close>

definition silentNodeEnv :: env where
  "silentNodeEnv =
     bareEnv\<lparr>Output := (\<lambda>cmd.
        if cmd = Command ''node'' [''-v''] [] then ([], None) else Output bareEnv cmd)\<rparr>"

text \<open>A machine on which the glob itself fails.\<close>

definition globFailsEnv :: env where
  "globFailsEnv = bareEnv\<lparr>Glob := (\<lambda>_. ([], Some ''syntax error in pattern''))\<rparr>"

text \<open>A machine on which only \<^verbatim>\<open>rm\<close> works.\<close>

definition rmOKEnv :: env where
  "rmOKEnv =
     bareEnv\<lparr>Output := (\<lambda>cmd.
        if cmd = Command ''rm'' [''-rf'', ''node_modules''] ''/work/app'' then ([], None)
        else Output bareEnv cmd)\<rparr>"

text \<open>The builder that \<^verbatim>\<open>Initialize\<close> leaves on the machine with Node and npm.\<close>

definition initializedBuilder :: NodeJSBuilder where
  "initializedBuilder =
     \<lparr>NodeCmd = ''node'', NodeVersion = ''8.9.4'', NpmCmd = ''npm'', NpmVersion = ''5.6.0'',
      YarnCmd = ''yarn'', YarnVersion = []\<rparr>"

lemmas env_defs = rmOKEnv_def initializedBuilder_def exampleModule_def nodeNpmEnv_def lockfileEnv_def silentEnv_def silentOverrideEnv_def
  manifestPaths_def manifestsEnv_def bareEnv_def newline_def globFailsEnv_def

section \<open>Lemmas about \<^verbatim>\<open>TrimSpace\<close>\<close>

lemma leadingSpace_v: "leadingSpace (CHR ''v'' # r) = None"
  by (simp add: leadingSpace_def spaceRunes_def)

lemma TrimLeftSpace_v: "TrimLeftSpace (CHR ''v'' # r) = CHR ''v'' # r"
  by (subst TrimLeftSpace.simps) (simp add: leadingSpace_v)

lemma trailingSpace_rune:
  "trailingSpace s = Some p \<Longrightarrow> p \<in> set spaceRunes \<and> drop (length s - length p) s = p"
  unfolding trailingSpace_def find_Some_iff by auto

lemma spaceRunes_not_v: "p \<in> set spaceRunes \<Longrightarrow> p \<noteq> [] \<and> hd p \<noteq> CHR ''v''"
  by (auto simp: spaceRunes_def)

text \<open>A string that starts with \<open>v\<close> still does after trimming, so the slice
  \<^verbatim>\<open>[1:]\<close> in \<^verbatim>\<open>Initialize\<close> is within bounds.\<close>

lemma TrimRightSpace_v: "\<exists>r'. TrimRightSpace (CHR ''v'' # r) = CHR ''v'' # r'"
proof (induction "CHR ''v'' # r" arbitrary: r rule: TrimRightSpace.induct)
  case 1
  let ?s = "CHR ''v'' # r"
  show ?case
  proof (cases "trailingSpace ?s")
    case None
    then show ?thesis by (subst TrimRightSpace.simps) simp
  next
    case (Some p)
    then have p: "p \<in> set spaceRunes" and d: "drop (length ?s - length p) ?s = p"
      using trailingSpace_rune by blast+
    have nv: "p \<noteq> []" "hd p \<noteq> CHR ''v''" using p spaceRunes_not_v by blast+
    have "length ?s - length p \<noteq> 0"
    proof
      assume "length ?s - length p = 0"
      then have "?s = p" using d by simp
      then show False using nv by auto
    qed
    then obtain k where k: "length ?s - length p = Suc k" by (cases "length ?s - length p") auto
    then have t: "take (length ?s - length p) ?s = CHR ''v'' # take k r" by simp
    have "\<exists>r'. TrimRightSpace (CHR ''v'' # take k r) = CHR ''v'' # r'"
      using "1" [OF Some] t by simp
    moreover have "TrimRightSpace ?s = TrimRightSpace (take (length ?s - length p) ?s)"
      using Some by (subst TrimRightSpace.simps) simp
    ultimately show ?thesis using t by simp
  qed
qed

lemma TrimSpace_v: "\<exists>r'. TrimSpace (CHR ''v'' # r) = CHR ''v'' # r'"
  using TrimRightSpace_v by (simp add: TrimSpace_def TrimLeftSpace_v)

section \<open>Lemmas about the candidate loop and \<^verbatim>\<open>Initialize\<close>\<close>

lemma accepts_not_crashes: "accepts e c \<Longrightarrow> \<not> crashes e c"
  by (auto simp: accepts_def crashes_def)

lemma findNode_step_skip:
  "\<not> stops e c \<Longrightarrow> findNode e (c # cs) log = findNode e cs (if c = [] then log else log @ [probeCmd c])"
proof -
  assume ns: "\<not> stops e c"
  obtain out err where o: "Output e (Command c [''-v''] []) = (out, err)" by force
  show ?thesis
    using ns o
    by (cases out) (auto simp: stops_def accepts_def crashes_def probeCmd_def Let_def)
qed

lemma findNode_step_crash:
  "crashes e c \<Longrightarrow> findNode e (c # cs) log = NodePanic"
  by (auto simp: crashes_def probeCmd_def)

lemma findNode_step_accept:
  assumes "accepts e c"
  shows "findNode e (c # cs) log = NodeFound c (tl (TrimSpace (fst (Output e (probeCmd c))))) (log @ [probeCmd c])"
proof -
  obtain out err where o: "Output e (Command c [''-v''] []) = (out, err)" by force
  with assms have c: "c \<noteq> []" and err: "err = None" and "take 1 out = ''v''"
    by (auto simp: accepts_def probeCmd_def)
  then obtain r where out: "out = CHR ''v'' # r" by (cases out) auto
  obtain r' where t: "TrimSpace out = CHR ''v'' # r'" using TrimSpace_v out by blast
  show ?thesis using o c err out t by (simp add: probeCmd_def)
qed

lemma findNode_eq:
  "findNode e cs log =
     (case find (stops e) cs of
        None \<Rightarrow> NodeMissing (log @ probed e cs)
      | Some c \<Rightarrow>
          if crashes e c then NodePanic
          else NodeFound c (tl (TrimSpace (fst (Output e (probeCmd c)))))
                 (log @ probed e cs @ [probeCmd c]))"
proof (induction cs arbitrary: log)
  case Nil
  then show ?case by (simp add: probed_def)
next
  case (Cons c cs)
  show ?case
  proof (cases "stops e c")
    case False
    then show ?thesis
      using Cons.IH findNode_step_skip [OF False]
      by (auto simp: probed_def split: option.splits)
  next
    case True
    show ?thesis
    proof (cases "crashes e c")
      case True
      then show ?thesis using \<open>stops e c\<close> findNode_step_crash by (simp add: probed_def)
    next
      case False
      then have "accepts e c" using True by (simp add: stops_def)
      then show ?thesis using True False findNode_step_accept by (simp add: probed_def)
    qed
  qed
qed

lemma setNpm_fields:
  "NpmCmd (setNpm e b) \<noteq> []"
  "NpmVersion b = [] \<Longrightarrow> (NpmVersion (setNpm e b) \<noteq> []) = npmResolves e"
  "YarnVersion (setNpm e b) = YarnVersion b"
  "NodeCmd (setNpm e b) = NodeCmd b"
  "NodeVersion (setNpm e b) = NodeVersion b"
  by (auto simp: setNpm_def npmResolves_def resolves_def probeCmd_def Let_def split: prod.splits)

lemma setYarn_fields:
  "YarnCmd (setYarn e b) \<noteq> []"
  "YarnVersion b = [] \<Longrightarrow> (YarnVersion (setYarn e b) \<noteq> []) = yarnResolves e"
  "NpmVersion (setYarn e b) = NpmVersion b"
  "NpmCmd (setYarn e b) = NpmCmd b"
  "NodeCmd (setYarn e b) = NodeCmd b"
  "NodeVersion (setYarn e b) = NodeVersion b"
  by (auto simp: setYarn_def yarnResolves_def resolves_def probeCmd_def Let_def split: prod.splits)

lemma Initialize_Panic_iff:
  "Initialize e b = Panic \<longleftrightarrow> (\<exists>c. find (stops e) (nodeCmds e) = Some c \<and> crashes e c)"
  by (auto simp: Initialize_def findNode_eq Let_def split: option.splits)

lemma Initialize_error_iff:
  assumes "Initialize e b = Return (b', log, err)"
    and "NpmVersion b = []" and "YarnVersion b = []"
  shows "err \<noteq> None \<longleftrightarrow>
           find (stops e) (nodeCmds e) = None \<or> (\<not> npmResolves e \<and> \<not> yarnResolves e)"
proof (cases "find (stops e) (nodeCmds e)")
  case None
  then show ?thesis using assms(1) by (auto simp: Initialize_def findNode_eq)
next
  case (Some c)
  let ?b1 = "b\<lparr>NodeVersion := tl (TrimSpace (fst (Output e (probeCmd c)))), NodeCmd := c\<rparr>"
  have v: "NpmVersion ?b1 = []" "YarnVersion (setNpm e ?b1) = []"
    using assms(2,3) by (simp_all add: setNpm_fields)
  have n: "(NpmVersion (setYarn e (setNpm e ?b1)) \<noteq> []) = npmResolves e"
    using v by (simp add: setNpm_fields setYarn_fields)
  have y: "(YarnVersion (setYarn e (setNpm e ?b1)) \<noteq> []) = yarnResolves e"
    using v by (simp add: setYarn_fields)
  have c: "NpmCmd (setYarn e (setNpm e ?b1)) \<noteq> []" "YarnCmd (setYarn e (setNpm e ?b1)) \<noteq> []"
    by (simp_all add: setNpm_fields setYarn_fields)
  show ?thesis
    using assms(1) Some n y c
    by (auto simp: Initialize_def findNode_eq Let_def split: if_splits)
qed

lemma Initialize_NodeCmd:
  assumes "Initialize e b = Return (b', log, err)" and "find (stops e) (nodeCmds e) = Some c"
  shows "accepts e c \<and> NodeCmd b' = c \<and> NodeVersion b' = tl (TrimSpace (fst (Output e (probeCmd c))))"
proof -
  have s: "stops e c" using assms(2) by (auto simp: find_Some_iff)
  have nc: "\<not> crashes e c" using assms by (auto simp: Initialize_def findNode_eq)
  then have "accepts e c" using s by (simp add: stops_def)
  then show ?thesis
    using assms nc
    by (auto simp: Initialize_def findNode_eq Let_def setNpm_fields setYarn_fields split: if_splits)
qed

lemma Initialize_commands_set:
  assumes "Initialize e b = Return (b', log, None)"
  shows "NpmCmd b' \<noteq> [] \<and> YarnCmd b' \<noteq> []"
  using assms
  by (auto simp: Initialize_def findNode_eq Let_def setNpm_fields setYarn_fields
           split: option.splits if_splits)

lemma installDeps_lockfile:
  assumes "Stat e (Join e [Dir m, ''yarn.lock'']) = None"
  shows "installDeps e builder m =
           (if YarnCmd builder = [] then ([], Some ErrYarnMissing) else run e (yarnInstall builder m))"
  using assms by (simp add: installDeps_def)

lemma Build_after_Initialize:
  assumes "Initialize e b = Return (b', log, None)"
    and "Stat e (Join e [Dir m, ''yarn.lock'']) = None"
  shows "Build e b' m False = run e (yarnInstall b' m)"
  using Initialize_commands_set [OF assms(1)] assms(2)
  by (simp add: Build_def installDeps_lockfile)

section \<open>Lemmas about \<^verbatim>\<open>Build\<close> and \<^verbatim>\<open>Analyze\<close>\<close>

lemma installDeps_isInstall: "list_all isInstall (fst (installDeps e builder m))"
  by (simp add: installDeps_def run_def isInstall_def yarnInstall_def npmInstall_def)

lemma foldl_snoc: "foldl (\<lambda>deps d. deps @ [d]) acc ds = acc @ ds"
  by (induction ds arbitrary: acc) auto

lemma collect_id: "collect ds = ds"
  by (simp add: collect_def foldl_snoc)

lemma fold_goroutine_wg:
  "wg (fold (goroutine e paths) sched st) = wg st - int (length sched)"
  by (induction sched arbitrary: st) (auto simp: goroutine_def)

lemma fold_goroutine_length:
  "length (dependencies (fold (goroutine e paths) sched st)) = length (dependencies st)"
  by (induction sched arbitrary: st) (auto simp: goroutine_def)

text \<open>Every goroutine of a well-formed run has written its own slot and no other.\<close>

lemma fold_goroutine_nth:
  "distinct sched \<Longrightarrow> list_all (\<lambda>i. i < length (dependencies st)) sched \<Longrightarrow>
   i < length (dependencies st) \<Longrightarrow>
   dependencies (fold (goroutine e paths) sched st) ! i =
     (if i \<in> set sched then readManifest e (paths ! i) (dependencies st ! i)
      else dependencies st ! i)"
proof (induction sched arbitrary: st)
  case Nil
  then show ?case by simp
next
  case (Cons j sched)
  let ?st = "goroutine e paths j st"
  have len: "length (dependencies ?st) = length (dependencies st)"
    by (simp add: goroutine_def)
  have j: "j < length (dependencies st)" "j \<notin> set sched"
    using Cons.prems by auto
  have "dependencies (fold (goroutine e paths) sched ?st) ! i =
     (if i \<in> set sched then readManifest e (paths ! i) (dependencies ?st ! i)
      else dependencies ?st ! i)"
    using Cons.IH [of ?st] Cons.prems len by simp
  moreover have "dependencies ?st ! i =
     (if i = j then readManifest e (paths ! j) (dependencies st ! j) else dependencies st ! i)"
    using Cons.prems j by (simp add: goroutine_def)
  ultimately show ?case using j by auto
qed

lemma wellFormed_complete:
  assumes "wellFormed n sched" and "length sched = n"
  shows "set sched = {..<n}"
proof -
  have "set sched \<subseteq> {..<n}" using assms(1) by (auto simp: wellFormed_def list_all_iff)
  moreover have "card (set sched) = n" using assms by (simp add: wellFormed_def distinct_card)
  ultimately show ?thesis by (simp add: card_subset_eq)
qed

lemma Analyze_returns:
  assumes g: "Glob e (manifestPattern e m) = (nodeModules, None)"
    and wf: "wellFormed (length nodeModules) sched"
  shows "Analyze e builder m flag sched =
     (if length sched = length nodeModules then Some (map (slotResult e) nodeModules, None)
      else None)"
proof -
  let ?n = "length nodeModules"
  let ?init = "\<lparr>dependencies = replicate ?n NodeModule_zero, wg = int ?n\<rparr>"
  let ?st = "fold (goroutine e nodeModules) sched ?init"
  have A: "Analyze e builder m flag sched =
             (if wg ?st = 0 then Some (dependencies ?st, None) else None)"
    using g by (simp add: Analyze_def collect_id Let_def)
  have w: "wg ?st = int ?n - int (length sched)"
    by (simp add: fold_goroutine_wg)
  show ?thesis
  proof (cases "length sched = ?n")
    case False
    then show ?thesis using A w by simp
  next
    case True
    then have full: "set sched = {..<?n}" using wf wellFormed_complete by blast
    have len: "length (dependencies ?st) = ?n" by (simp add: fold_goroutine_length)
    have "dependencies ?st ! i = map (slotResult e) nodeModules ! i" if "i < ?n" for i
    proof -
      have "dependencies ?st ! i =
        (if i \<in> set sched then readManifest e (nodeModules ! i) (dependencies ?init ! i)
         else dependencies ?init ! i)"
        using wf that by (intro fold_goroutine_nth) (simp_all add: wellFormed_def)
      then show ?thesis using that full by (simp add: slotResult_def)
    qed
    then have "dependencies ?st = map (slotResult e) nodeModules"
      using len by (simp add: list_eq_iff_nth_eq)
    then show ?thesis using A w True by simp
  qed
qed

section \<open>The claims\<close>

subsection \<open>C1: one entry per manifest\<close>

text \<open>
  Claim C1 says that of K manifests that parse and M that do not, \<^verbatim>\<open>Analyze\<close> returns
  exactly K entries, the zero-valued slots being filtered out after the barrier. The
  code has no such filter: its last loop appends every slot. With one valid manifest, one
  that is not JSON and one that cannot be read, it returns three entries, two of them
  zero-valued.
\<close>

theorem Analyze_placeholders_counterexample:
  "Glob manifestsEnv (manifestPattern manifestsEnv exampleModule) = (manifestPaths, None)
   \<and> length (filter (parsedOK manifestsEnv) manifestPaths) = 1
   \<and> Analyze manifestsEnv NodeJSBuilder_zero exampleModule False [2, 0, 1] =
       Some ([lodash, NodeModule_zero, NodeModule_zero], None)
   \<and> length [lodash, NodeModule_zero, NodeModule_zero] \<noteq>
       length (filter (parsedOK manifestsEnv) manifestPaths)"
proof -
  have "Glob manifestsEnv (manifestPattern manifestsEnv exampleModule) = (manifestPaths, None)"
    by (simp add: env_defs manifestPattern_def)
  moreover have "length (filter (parsedOK manifestsEnv) manifestPaths) = 1"
    by code_simp
  moreover have "length [lodash, NodeModule_zero, NodeModule_zero] \<noteq>
       length (filter (parsedOK manifestsEnv) manifestPaths)"
    by code_simp
  moreover have "Analyze manifestsEnv NodeJSBuilder_zero exampleModule False [2, 0, 1] =
       Some ([lodash, NodeModule_zero, NodeModule_zero], None)"
    by code_simp
  ultimately show ?thesis by blast
qed

text \<open>
  Claim C1, as the code has it: when the glob succeeds and every goroutine has finished,
  \<^verbatim>\<open>Analyze\<close> returns, with no error and exactly K + M entries, one per globbed path
  and in the order of the glob. Entry i is what \<^verbatim>\<open>json.Unmarshal\<close> left in the
  zero-valued slot when the manifest of path i could be read, and the zero-valued
  \<^verbatim>\<open>NodeModule\<close> when it could not.
\<close>

theorem Analyze_one_entry_per_path:
  assumes g: "Glob e (manifestPattern e m) = (nodeModules, None)"
    and wf: "wellFormed (length nodeModules) sched"
    and complete: "length sched = length nodeModules"
  shows "\<exists>deps. Analyze e builder m flag sched = Some (deps, None)
    \<and> length deps = length (filter (parsedOK e) nodeModules)
                    + length (filter (\<lambda>p. \<not> parsedOK e p) nodeModules)
    \<and> (\<forall>i<length nodeModules. deps ! i =
          (if snd (ReadFile e (nodeModules ! i)) = None
           then fst (Unmarshal e (fst (ReadFile e (nodeModules ! i))) NodeModule_zero)
           else NodeModule_zero))"
proof -
  let ?deps = "map (slotResult e) nodeModules"
  have r: "Analyze e builder m flag sched = Some (?deps, None)"
    using Analyze_returns [OF g wf, of builder flag] complete by simp
  have "length ?deps = length nodeModules" by simp
  then have l: "length ?deps = length (filter (parsedOK e) nodeModules)
                    + length (filter (\<lambda>p. \<not> parsedOK e p) nodeModules)"
    by (simp add: sum_length_filter_compl)
  have "?deps ! i = (if snd (ReadFile e (nodeModules ! i)) = None
           then fst (Unmarshal e (fst (ReadFile e (nodeModules ! i))) NodeModule_zero)
           else NodeModule_zero)" if "i < length nodeModules" for i
    using that by (simp add: slotResult_def readManifest_def split: prod.splits)
  then show ?thesis using r l by blast
qed

theorem Analyze_one_entry_per_path_witness:
  "Glob manifestsEnv (manifestPattern manifestsEnv exampleModule) = (manifestPaths, None)
   \<and> wellFormed (length manifestPaths) [1, 2, 0]
   \<and> length [1, 2, 0 :: nat] = length manifestPaths
   \<and> Analyze manifestsEnv NodeJSBuilder_zero exampleModule True [1, 2, 0] =
       Some ([lodash, NodeModule_zero, NodeModule_zero], None)
   \<and> length [lodash, NodeModule_zero, NodeModule_zero] =
       length (filter (parsedOK manifestsEnv) manifestPaths)
       + length (filter (\<lambda>p. \<not> parsedOK manifestsEnv p) manifestPaths)"
proof -
  have g: "Glob manifestsEnv (manifestPattern manifestsEnv exampleModule) = (manifestPaths, None)"
    by (simp add: env_defs manifestPattern_def)
  have wf: "wellFormed (length manifestPaths) [1, 2, 0]"
    by (simp add: wellFormed_def manifestPaths_def)
  have c: "length [1, 2, 0 :: nat] = length manifestPaths"
    by (simp add: manifestPaths_def)
  have r: "Analyze manifestsEnv NodeJSBuilder_zero exampleModule True [1, 2, 0] =
       Some ([lodash, NodeModule_zero, NodeModule_zero], None)"
    by code_simp
  obtain deps where
    d: "Analyze manifestsEnv NodeJSBuilder_zero exampleModule True [1, 2, 0] = Some (deps, None)"
    and l: "length deps = length (filter (parsedOK manifestsEnv) manifestPaths)
              + length (filter (\<lambda>p. \<not> parsedOK manifestsEnv p) manifestPaths)"
    using Analyze_one_entry_per_path [OF g wf c, of NodeJSBuilder_zero True] by blast
  have "deps = [lodash, NodeModule_zero, NodeModule_zero]" using d r by simp
  then show ?thesis using g wf c r l by simp
qed

subsection \<open>C2: a lockfile without Yarn\<close>

text \<open>
  Claim C2: with a \<^verbatim>\<open>yarn.lock\<close> in the module root and no resolved Yarn,
  \<^verbatim>\<open>Build\<close> fails with the error that the lockfile was found and the Yarn binary is
  missing, and does not fall back to npm. \<^verbatim>\<open>Build\<close> tests \<^verbatim>\<open>YarnCmd == ""\<close>, but
  \<^verbatim>\<open>Initialize\<close> always leaves a command name there (the default \<^verbatim>\<open>yarn\<close>), also
  when the version probe failed. On a machine with Node and npm and without Yarn,
  \<^verbatim>\<open>Initialize\<close> succeeds with an empty \<^verbatim>\<open>YarnVersion\<close>, and \<^verbatim>\<open>Build\<close> then
  runs \<^verbatim>\<open>yarn install --production --frozen-lockfile\<close> and returns the error of that
  subprocess. npm is indeed not run.
\<close>

theorem Build_yarn_guard_dead_after_Initialize:
  "Initialize lockfileEnv NodeJSBuilder_zero =
     Return (initializedBuilder,
             [Command ''node'' [''-v''] [], Command ''npm'' [''-v''] [], Command ''yarn'' [''-v''] []],
             None)
   \<and> YarnVersion initializedBuilder = []
   \<and> yarnResolves lockfileEnv = False
   \<and> Stat lockfileEnv (Join lockfileEnv [Dir exampleModule, ''yarn.lock'']) = None
   \<and> Build lockfileEnv initializedBuilder exampleModule False =
       ([Command ''yarn'' [''install'', ''--production'', ''--frozen-lockfile''] ''/work/app''],
        Some (External ''executable file not found in $PATH''))"
proof -
  have "Initialize lockfileEnv NodeJSBuilder_zero =
     Return (initializedBuilder,
             [Command ''node'' [''-v''] [], Command ''npm'' [''-v''] [], Command ''yarn'' [''-v''] []],
             None)"
    by code_simp
  moreover have "YarnVersion initializedBuilder = []"
    by (simp add: initializedBuilder_def)
  moreover have "yarnResolves lockfileEnv = False"
    by (simp add: yarnResolves_def resolves_def probeCmd_def env_defs)
  moreover have "Stat lockfileEnv (Join lockfileEnv [Dir exampleModule, ''yarn.lock'']) = None"
    by (simp add: env_defs)
  moreover have "Build lockfileEnv initializedBuilder exampleModule False =
       ([Command ''yarn'' [''install'', ''--production'', ''--frozen-lockfile''] ''/work/app''],
        Some (External ''executable file not found in $PATH''))"
    by (simp add: env_defs Build_def installDeps_def run_def yarnInstall_def)
  ultimately show ?thesis by blast
qed

subsection \<open>C3: when Initialize fails\<close>

text \<open>
  Claim C3: \<^verbatim>\<open>Initialize\<close> returns an error exactly when no runtime candidate
  resolves or neither package manager resolves. Where \<^verbatim>\<open>NODE_BINARY\<close> names a program
  that succeeds without output and no Node is installed, no candidate resolves, yet
  \<^verbatim>\<open>Initialize\<close> does not return an error: it panics on
  \<^verbatim>\<open>nodeVersionOutput[0]\<close>.
\<close>

theorem Initialize_panics_without_runtime:
  "find (accepts silentEnv) (nodeCmds silentEnv) = None
   \<and> npmResolves silentEnv
   \<and> Initialize silentEnv NodeJSBuilder_zero = Panic"
proof -
  have "find (accepts silentEnv) (nodeCmds silentEnv) = None"
    by (simp add: env_defs accepts_def nodeCmds_def probeCmd_def)
  moreover have "npmResolves silentEnv" by code_simp
  moreover have "Initialize silentEnv NodeJSBuilder_zero = Panic"
    by (simp add: env_defs Initialize_def nodeCmds_def)
  ultimately show ?thesis by blast
qed

subsection \<open>C4: the forced clean-up comes first\<close>

text \<open>
  Claim C4: with \<^verbatim>\<open>force\<close> set, the first subprocess of \<^verbatim>\<open>Build\<close> is
  \<^verbatim>\<open>rm -rf node_modules\<close> in the module root, which is not an install; when it
  succeeds, what follows is what \<^verbatim>\<open>Build\<close> does without \<^verbatim>\<open>force\<close>, where every
  subprocess is an install; when it fails, \<^verbatim>\<open>Build\<close> returns that error and has run
  nothing else.
\<close>

theorem Build_force_removes_first:
  "(snd (Output e (rmCmd m)) = None \<longrightarrow>
      Build e builder m True =
        (rmCmd m # fst (Build e builder m False), snd (Build e builder m False)))
   \<and> (\<forall>err. snd (Output e (rmCmd m)) = Some err \<longrightarrow>
         Build e builder m True = ([rmCmd m], Some (External err)))
   \<and> hd (fst (Build e builder m True)) = rmCmd m
   \<and> \<not> isInstall (rmCmd m)
   \<and> list_all isInstall (fst (Build e builder m False))"
proof -
  have "list_all isInstall (fst (Build e builder m False))"
    using installDeps_isInstall [of e builder m] by (simp add: Build_def)
  moreover have "\<not> isInstall (rmCmd m)"
    by (simp add: isInstall_def rmCmd_def)
  moreover have "hd (fst (Build e builder m True)) = rmCmd m"
    by (simp add: Build_def split: option.splits)
  ultimately show ?thesis
    by (simp add: Build_def)
qed

theorem Build_force_removes_first_witness:
  "snd (Output rmOKEnv (rmCmd exampleModule)) = None
   \<and> Build rmOKEnv initializedBuilder exampleModule True =
       ([Command ''rm'' [''-rf'', ''node_modules''] ''/work/app'',
         Command ''npm'' [''install'', ''--production''] ''/work/app''],
        Some (External ''executable file not found in $PATH''))
   \<and> snd (Output bareEnv (rmCmd exampleModule)) = Some ''executable file not found in $PATH''
   \<and> Build bareEnv initializedBuilder exampleModule True =
       ([Command ''rm'' [''-rf'', ''node_modules''] ''/work/app''],
        Some (External ''executable file not found in $PATH''))"
proof -
  have ok: "snd (Output rmOKEnv (rmCmd exampleModule)) = None"
    by (simp add: env_defs rmCmd_def)
  have bad: "snd (Output bareEnv (rmCmd exampleModule)) = Some ''executable file not found in $PATH''"
    by (simp add: env_defs rmCmd_def)
  have inst: "Build rmOKEnv initializedBuilder exampleModule False =
       ([Command ''npm'' [''install'', ''--production''] ''/work/app''],
        Some (External ''executable file not found in $PATH''))"
    by (simp add: env_defs Build_def installDeps_def run_def npmInstall_def)
  have rm: "rmCmd exampleModule = Command ''rm'' [''-rf'', ''node_modules''] ''/work/app''"
    by (simp add: env_defs rmCmd_def)
  show ?thesis
    using ok bad inst rm
      Build_force_removes_first [of rmOKEnv exampleModule initializedBuilder]
      Build_force_removes_first [of bareEnv exampleModule initializedBuilder]
    by simp
qed

subsection \<open>C5: the first valid runtime candidate\<close>

text \<open>
  Claim C5: \<^verbatim>\<open>Initialize\<close> resolves the runtime to the first candidate, in the order
  \<^verbatim>\<open>$NODE_BINARY\<close>, \<^verbatim>\<open>node\<close>, \<^verbatim>\<open>nodejs\<close>, whose version probe succeeds with
  an output that starts with \<open>v\<close>. Where \<^verbatim>\<open>NODE_BINARY\<close> names a program that
  succeeds without output and \<^verbatim>\<open>node\<close> is installed, that first candidate is
  \<^verbatim>\<open>node\<close>, but the loop never gets to it: \<^verbatim>\<open>Initialize\<close> panics on the output of
  the override.
\<close>

theorem Initialize_panics_before_valid_candidate:
  "find (accepts silentOverrideEnv) (nodeCmds silentOverrideEnv) = Some ''node''
   \<and> npmResolves silentOverrideEnv
   \<and> Initialize silentOverrideEnv NodeJSBuilder_zero = Panic"
proof -
  have "find (accepts silentOverrideEnv) (nodeCmds silentOverrideEnv) = Some ''node''"
    by (simp add: env_defs accepts_def nodeCmds_def probeCmd_def)
  moreover have "npmResolves silentOverrideEnv" by code_simp
  moreover have "Initialize silentOverrideEnv NodeJSBuilder_zero = Panic"
    by (simp add: env_defs Initialize_def nodeCmds_def)
  ultimately show ?thesis by blast
qed

subsection \<open>C6: IsBuilt\<close>

text \<open>
  Claim C6: \<^verbatim>\<open>IsBuilt\<close> returns true exactly when \<^verbatim>\<open>os.Stat\<close> finds
  \<^verbatim>\<open>node_modules\<close> at the module root, never returns an error, and depends on
  nothing else: not on what can be read or globbed below that path, not on any
  subprocess, not on the builder or the flag.
\<close>

theorem IsBuilt_structural:
  "fst (IsBuilt e builder m flag) = (Stat e (Join e [Dir m, ''node_modules'']) = None)
   \<and> snd (IsBuilt e builder m flag) = None
   \<and> IsBuilt (e\<lparr>ReadFile := r, Glob := g, Output := out, Getenv := ge, Unmarshal := u\<rparr>)
        builder' m flag' = IsBuilt e builder m flag"
  by (simp add: IsBuilt_def)

subsection \<open>C7: when Analyze fails\<close>

text \<open>
  Claim C7: \<^verbatim>\<open>Analyze\<close> returns an error exactly when the glob over
  \<^verbatim>\<open><root>/**/node_modules/*/package.json\<close> fails, and then it is the error of the
  glob; when the glob succeeds without a match, \<^verbatim>\<open>Analyze\<close> returns the empty
  sequence and no error.
\<close>

theorem Analyze_error_iff_glob_fails:
  "((\<exists>deps err. Analyze e builder m flag sched = Some (deps, Some err))
      \<longleftrightarrow> snd (Glob e (manifestPattern e m)) \<noteq> None)
   \<and> (\<forall>err. snd (Glob e (manifestPattern e m)) = Some err \<longrightarrow>
         Analyze e builder m flag sched = Some ([], Some (External err)))
   \<and> (Glob e (manifestPattern e m) = ([], None) \<longrightarrow>
         Analyze e builder m flag [] = Some ([], None))"
  by (auto simp: Analyze_def collect_def Let_def split: prod.splits option.splits)

theorem Analyze_error_iff_glob_fails_witness:
  "Glob bareEnv (manifestPattern bareEnv exampleModule) = ([], None)
   \<and> manifestPattern bareEnv exampleModule = ''/work/app/**/node_modules/*/package.json''
   \<and> Analyze bareEnv initializedBuilder exampleModule False [] = Some ([], None)
   \<and> snd (Glob globFailsEnv (manifestPattern globFailsEnv exampleModule)) = Some ''syntax error in pattern''
   \<and> Analyze globFailsEnv initializedBuilder exampleModule False [] =
       Some ([], Some (External ''syntax error in pattern''))"
proof -
  have g: "Glob bareEnv (manifestPattern bareEnv exampleModule) = ([], None)"
    by (simp add: env_defs)
  have p: "manifestPattern bareEnv exampleModule = ''/work/app/**/node_modules/*/package.json''"
    by (simp add: env_defs manifestPattern_def)
  have f: "snd (Glob globFailsEnv (manifestPattern globFailsEnv exampleModule)) = Some ''syntax error in pattern''"
    by (simp add: env_defs)
  show ?thesis
    using g p f
      Analyze_error_iff_glob_fails [of bareEnv initializedBuilder exampleModule False "[]"]
      Analyze_error_iff_glob_fails [of globFailsEnv initializedBuilder exampleModule False "[]"]
    by simp
qed

subsection \<open>C8: the aggregation does not depend on the schedule\<close>

text \<open>
  Claim C8: whatever the order in which the goroutines finish, \<^verbatim>\<open>wg.Wait()\<close> lets the
  main goroutine go on exactly when every goroutine is done; slot i then holds the result
  for path i; and two runs in the same environment return the same sequence.
\<close>

theorem Analyze_schedule_independent:
  assumes g: "Glob e (manifestPattern e m) = (nodeModules, None)"
    and wf: "wellFormed (length nodeModules) sched"
    and wf': "wellFormed (length nodeModules) sched'"
  shows "(Analyze e builder m flag sched \<noteq> None \<longleftrightarrow> set sched = {..<length nodeModules})
    \<and> (\<forall>deps err. Analyze e builder m flag sched = Some (deps, err) \<longrightarrow>
          err = None \<and> length deps = length nodeModules
          \<and> (\<forall>i<length nodeModules. deps ! i = slotResult e (nodeModules ! i)))
    \<and> (\<forall>r r'. Analyze e builder m flag sched = Some r
                \<and> Analyze e builder' m flag' sched' = Some r' \<longrightarrow> r = r')"
proof -
  have len: "length sched = length nodeModules \<longleftrightarrow> set sched = {..<length nodeModules}"
  proof
    assume "length sched = length nodeModules"
    then show "set sched = {..<length nodeModules}" using wf wellFormed_complete by blast
  next
    assume "set sched = {..<length nodeModules}"
    then have "card (set sched) = length nodeModules" by simp
    then show "length sched = length nodeModules"
      using wf by (simp add: wellFormed_def distinct_card)
  qed
  have A: "Analyze e builder m flag sched =
     (if length sched = length nodeModules then Some (map (slotResult e) nodeModules, None)
      else None)"
    using Analyze_returns [OF g wf] .
  have A': "Analyze e builder' m flag' sched' =
     (if length sched' = length nodeModules then Some (map (slotResult e) nodeModules, None)
      else None)"
    using Analyze_returns [OF g wf'] .
  have 1: "Analyze e builder m flag sched \<noteq> None \<longleftrightarrow> set sched = {..<length nodeModules}"
    using A len by simp
  have 2: "\<forall>deps err. Analyze e builder m flag sched = Some (deps, err) \<longrightarrow>
          err = None \<and> length deps = length nodeModules
          \<and> (\<forall>i<length nodeModules. deps ! i = slotResult e (nodeModules ! i))"
    using A by (auto split: if_splits)
  have 3: "\<forall>r r'. Analyze e builder m flag sched = Some r
                \<and> Analyze e builder' m flag' sched' = Some r' \<longrightarrow> r = r'"
    using A A' by (auto split: if_splits)
  show ?thesis using 1 2 3 by blast
qed

theorem Analyze_schedule_independent_witness:
  "Glob manifestsEnv (manifestPattern manifestsEnv exampleModule) = (manifestPaths, None)
   \<and> wellFormed (length manifestPaths) [2, 0, 1]
   \<and> wellFormed (length manifestPaths) [0, 1, 2]
   \<and> Analyze manifestsEnv NodeJSBuilder_zero exampleModule False [2, 0, 1] =
       Some ([lodash, NodeModule_zero, NodeModule_zero], None)
   \<and> Analyze manifestsEnv NodeJSBuilder_zero exampleModule False [0, 1, 2] =
       Some ([lodash, NodeModule_zero, NodeModule_zero], None)
   \<and> Analyze manifestsEnv NodeJSBuilder_zero exampleModule False [2, 0] = None"
proof -
  have g: "Glob manifestsEnv (manifestPattern manifestsEnv exampleModule) = (manifestPaths, None)"
    by (simp add: env_defs manifestPattern_def)
  have wf: "wellFormed (length manifestPaths) [2, 0, 1]"
    by (simp add: wellFormed_def manifestPaths_def)
  have wf': "wellFormed (length manifestPaths) [0, 1, 2]"
    by (simp add: wellFormed_def manifestPaths_def)
  have r: "Analyze manifestsEnv NodeJSBuilder_zero exampleModule False [2, 0, 1] =
       Some ([lodash, NodeModule_zero, NodeModule_zero], None)"
    by code_simp
  have r': "Analyze manifestsEnv NodeJSBuilder_zero exampleModule False [0, 1, 2] =
       Some ([lodash, NodeModule_zero, NodeModule_zero], None)"
    by code_simp
  have b: "Analyze manifestsEnv NodeJSBuilder_zero exampleModule False [2, 0] = None"
    by code_simp
  show ?thesis
    using g wf wf' r r' b
      Analyze_schedule_independent [OF g wf wf', of NodeJSBuilder_zero False NodeJSBuilder_zero False]
    by blast
qed

subsection \<open>C9: IsModule and InferModule\<close>

text \<open>
  Claim C9: for every target, \<^verbatim>\<open>IsModule\<close> returns false with a "not implemented"
  error and \<^verbatim>\<open>InferModule\<close> returns the zero-valued module with a "not implemented"
  error.
\<close>

theorem IsModule_InferModule_not_implemented:
  "IsModule builder target =
     (False, Some (ErrorsNew ''IsModule is not implemented for NodeJSBuilder''))
   \<and> InferModule builder target =
     (Module_zero, Some (ErrorsNew ''InferModule is not implemented for NodeJSBuilder''))
   \<and> snd (IsModule builder target) \<noteq> None
   \<and> snd (InferModule builder target) \<noteq> None"
  by (simp add: IsModule_def InferModule_def)

subsection \<open>C10: the unguarded index\<close>

text \<open>
  Claim C10: when the loop of \<^verbatim>\<open>Initialize\<close> comes to a candidate whose version
  command succeeds with empty output, \<^verbatim>\<open>nodeVersionOutput[0]\<close> is out of range and
  the program panics; so does \<^verbatim>\<open>Initialize\<close> when that candidate is the first at
  which the loop stops.
\<close>

theorem Initialize_index_out_of_range:
  assumes "c \<noteq> []" and "Output e (Command c [''-v''] []) = ([], None)"
  shows "findNode e (c # cs) log = NodePanic
    \<and> (find (stops e) (nodeCmds e) = Some c \<longrightarrow> Initialize e builder = Panic)"
proof -
  have cr: "crashes e c" using assms by (simp add: crashes_def probeCmd_def)
  then have "findNode e (c # cs) log = NodePanic" by (rule findNode_step_crash)
  moreover have "find (stops e) (nodeCmds e) = Some c \<longrightarrow> Initialize e builder = Panic"
    using cr Initialize_Panic_iff by blast
  ultimately show ?thesis by blast
qed

theorem Initialize_index_out_of_range_witness:
  "''node'' \<noteq> []
   \<and> Output silentNodeEnv (Command ''node'' [''-v''] []) = ([], None)
   \<and> find (stops silentNodeEnv) (nodeCmds silentNodeEnv) = Some ''node''
   \<and> findNode silentNodeEnv [''node'', ''nodejs''] [] = NodePanic
   \<and> Initialize silentNodeEnv NodeJSBuilder_zero = Panic"
proof -
  have o: "Output silentNodeEnv (Command ''node'' [''-v''] []) = ([], None)"
    by (simp add: silentNodeEnv_def)
  have s: "find (stops silentNodeEnv) (nodeCmds silentNodeEnv) = Some ''node''"
    by (simp add: silentNodeEnv_def env_defs stops_def accepts_def crashes_def nodeCmds_def probeCmd_def)
  have n: "''node'' \<noteq> []" by simp
  show ?thesis
    using n o s Initialize_index_out_of_range [OF n o, of "[''nodejs'']" "[]" NodeJSBuilder_zero]
    by blast
qed

end
